theory Spec2Isabelle
  imports Complex_Main "HOL-Library.Sublist"
begin

section \<open>Errors and numbers\<close>

text \<open>
  The exception classes the two modules can raise, as values. A function that can raise
  returns \<open>error + 'a\<close>, with \<open>Inl\<close> for the exception.
\<close>

datatype error =
  AttributeError | TypeError | ValueError | ImportError | UnboundLocalError
  | ZeroDivisionError | IndexError | KeyError

text \<open>
  Python numbers as the program meets them: integers (counter readings, nanosecond clock
  values), floats read as real numbers, and the float NaN that the standard deviation of
  fewer than two values is.
\<close>

datatype num = IntV int | FloatV real | NaN

text \<open>\<open>x / d\<close> for a non-zero float or integer constant \<open>d\<close>: true division, a float.\<close>

fun truediv :: "num \<Rightarrow> real \<Rightarrow> num" where
  "truediv (IntV i) d = FloatV (real_of_int i / d)"
| "truediv (FloatV x) d = FloatV (x / d)"
| "truediv NaN d = NaN"

text \<open>\<open>c * x\<close> for a float constant \<open>c\<close>.\<close>

fun times_const :: "real \<Rightarrow> num \<Rightarrow> num" where
  "times_const c (IntV i) = FloatV (c * real_of_int i)"
| "times_const c (FloatV x) = FloatV (c * x)"
| "times_const c NaN = NaN"

text \<open>The real number a value stands for; NaN stands for none.\<close>

fun real_of :: "num \<Rightarrow> real option" where
  "real_of (IntV i) = Some (real_of_int i)"
| "real_of (FloatV x) = Some x"
| "real_of NaN = None"

text \<open>\<open>isinstance(x, float)\<close>.\<close>

fun isinstance_float :: "num \<Rightarrow> bool" where
  "isinstance_float (IntV i) = False"
| "isinstance_float (FloatV x) = True"
| "isinstance_float NaN = True"

section \<open>The result type\<close>

text \<open>
  Modelled from the spec: the \<open>Result\<close> class (\<open>pyRAPL.Result\<close>, imported by both
  modules, is declared outside the two source files). The spec's ResultRecord has a label,
  a timestamp and a duration in seconds, optional package and DRAM series, and the optional
  confidence fields that mirror them; \<open>None\<close> is an absent field.
\<close>

record result =
  label :: string
  timestamp :: real
  duration :: num
  pkg :: "num list option"
  dram :: "num list option"
  duration_conf :: "num option"
  pkg_conf :: "num list option"
  dram_conf :: "num list option"

section \<open>The platform and the observable effects\<close>

text \<open>
  The sensor (\<open>pyRAPL._sensor\<close>) and the clock are outside the program: \<open>energy p k\<close>
  is what the \<open>k\<close>-th call of \<open>sensor.energy()\<close> returns and \<open>time_ns p k\<close> what the
  \<open>k\<close>-th call of \<open>time_ns()\<close> returns.
\<close>

record platform =
  energy :: "nat \<Rightarrow> int list"
  time_ns :: "nat \<Rightarrow> int"

text \<open>
  What a run does to its surroundings: how often the sensor and the clock were read, how
  often the measured function was called, the arguments handed to the \<open>add\<close> operation
  of an output (a record, or Python's \<open>None\<close>), and what was printed on standard output.
\<close>

record world =
  sensor_reads :: nat
  clock_reads :: nat
  calls :: nat
  added :: "result option list"
  printed :: "string list"

section \<open>The sentinel rule\<close>

text \<open>\<open>functools.reduce(lambda acc, x: acc or (x >= 0), energy_result, False)\<close>\<close>

definition empty_energy_result :: "int list \<Rightarrow> bool" where
  "empty_energy_result energy_result = foldl (\<lambda>acc x. acc \<or> 0 \<le> x) False energy_result"

text \<open>
  The conditional expression that \<open>end()\<close> applies to each of its two series:
  \<open>s if empty_energy_result(s) else None\<close>.
\<close>

definition series_or_none :: "int list \<Rightarrow> int list option" where
  "series_or_none s = (if empty_energy_result s then Some s else None)"

text \<open>The slice \<open>xs[0::2]\<close>; \<open>xs[1::2]\<close> is the same slice of \<open>xs[1:]\<close>.\<close>

fun every_other :: "'a list \<Rightarrow> 'a list" where
  "every_other [] = []"
| "every_other [x] = [x]"
| "every_other (x # y # zs) = x # every_other zs"

text \<open>
  Modelled from the spec: the subtraction of two sensor readings (the sensor and the array
  type of its readings are not in the source files). The spec's EnergyDelta is the
  elementwise difference of two snapshots of the same length; readings of different
  lengths are outside the sensor's contract and raise here.
\<close>

definition array_sub :: "int list \<Rightarrow> int list \<Rightarrow> error + int list" where
  "array_sub a b = (if length a = length b then Inr (map2 (-) a b) else Inl ValueError)"

section \<open>The measurement session\<close>

text \<open>The outputs a session can hold: the print output with its \<open>raw\<close> flag, or another one.\<close>

datatype sink = PrintOutput bool | OtherOutput

text \<open>
  An attribute that \<open>__init__\<close> does not assign is \<open>Unset\<close> until a method assigns it;
  it can also be bound to Python's \<open>None\<close>.
\<close>

datatype 'a attr = Unset | PyNone | Bound 'a

text \<open>
  The fields of a \<open>Measurement\<close>; the private ones (\<open>_output\<close>, \<open>_energy_begin\<close>,
  \<open>_ts_begin\<close>, \<open>_results\<close>) carry the prefix \<open>m\<close> here. \<open>__init__\<close> assigns the label
  and the output only, so the other three start unassigned (\<open>None\<close> for the two that
  \<open>begin()\<close> assigns, \<open>Unset\<close> for the results).
\<close>

record measurement =
  m_label :: string
  m_output :: sink
  m_energy_begin :: "int list option"
  m_ts_begin :: "int option"
  m_results :: "result attr"

definition Measurement_init :: "string \<Rightarrow> sink option \<Rightarrow> measurement" where
  "Measurement_init lbl out =
     \<lparr> m_label = lbl,
       m_output = (case out of None \<Rightarrow> PrintOutput False | Some ou \<Rightarrow> ou),
       m_energy_begin = None,
       m_ts_begin = None,
       m_results = Unset \<rparr>"

text \<open>
  The property \<open>result\<close>: reading \<open>self._results\<close> raises AttributeError while the
  attribute is unassigned, and the property raises AttributeError itself when it is
  \<open>None\<close>.
\<close>

definition Measurement_result :: "measurement \<Rightarrow> error + result" where
  "Measurement_result m =
     (case m_results m of
        Unset \<Rightarrow> Inl AttributeError
      | PyNone \<Rightarrow> Inl AttributeError
      | Bound r \<Rightarrow> Inr r)"

text \<open>\<open>begin()\<close> reads the sensor, then the clock.\<close>

definition Measurement_begin :: "platform \<Rightarrow> measurement \<Rightarrow> world \<Rightarrow> measurement \<times> world" where
  "Measurement_begin p m w =
     (m\<lparr> m_energy_begin := Some (energy p (sensor_reads w)),
         m_ts_begin := Some (time_ns p (clock_reads w)) \<rparr>,
      w\<lparr> sensor_reads := Suc (sensor_reads w), clock_reads := Suc (clock_reads w) \<rparr>)"

text \<open>
  \<open>end()\<close> reads the clock, then the sensor; the delta needs \<open>_energy_begin\<close> and the
  duration \<open>_ts_begin\<close>, in that order.
\<close>

definition Measurement_end ::
  "platform \<Rightarrow> measurement \<Rightarrow> world \<Rightarrow> (error + int \<times> int list option \<times> int list option) \<times> world"
where
  "Measurement_end p m w =
     (let ts_end = time_ns p (clock_reads w);
          energy_end = energy p (sensor_reads w);
          w' = w\<lparr> sensor_reads := Suc (sensor_reads w), clock_reads := Suc (clock_reads w) \<rparr>
      in case m_energy_begin m of
           None \<Rightarrow> (Inl AttributeError, w')
         | Some energy_begin \<Rightarrow>
             (case array_sub energy_end energy_begin of
                Inl e \<Rightarrow> (Inl e, w')
              | Inr delta \<Rightarrow>
                  (case m_ts_begin m of
                     None \<Rightarrow> (Inl AttributeError, w')
                   | Some ts_begin \<Rightarrow>
                       (Inr (ts_end - ts_begin,
                             series_or_none (every_other delta),
                             series_or_none (every_other (drop 1 delta))), w'))))"

text \<open>
  \<open>create_result\<close>: the arguments of \<open>Result(...)\<close> are evaluated from left to right,
  so \<open>self._ts_begin\<close> is needed first and \<open>duration_conf / 1000000000\<close> raises TypeError
  when \<open>duration_conf\<close> is \<open>None\<close>, the default.
\<close>

definition create_result ::
  "measurement \<Rightarrow> num \<Rightarrow> num list option \<Rightarrow> num list option \<Rightarrow>
   num option \<Rightarrow> num list option \<Rightarrow> num list option \<Rightarrow> error + measurement"
where
  "create_result m dur pk dr dur_conf pk_conf dr_conf =
     (case m_ts_begin m of
        None \<Rightarrow> Inl AttributeError
      | Some ts_begin \<Rightarrow>
          (case dur_conf of
             None \<Rightarrow> Inl TypeError
           | Some dc \<Rightarrow>
               Inr (m\<lparr> m_results := Bound
                     \<lparr> label = m_label m,
                       timestamp = real_of_int ts_begin / 1000000000,
                       duration = truediv dur 1000000000,
                       pkg = pk,
                       dram = dr,
                       duration_conf = Some (truediv dc 1000000000),
                       pkg_conf = pk_conf,
                       dram_conf = dr_conf \<rparr> \<rparr>)))"

section \<open>Scaling a record\<close>

text \<open>
  Modelled from the spec: the operation \<open>record / n\<close> of the result type (the \<open>Result\<close>
  class and its division are declared outside the two source files). In the spec's words it
  produces a new record with the same label and timestamp, \<open>duration / n\<close>, each element of
  \<open>pkg\<close> and \<open>dram\<close> divided by \<open>n\<close>, and the confidence fields passed through
  unscaled. Python's division raises on a zero divisor.
\<close>

definition result_truediv :: "result \<Rightarrow> int \<Rightarrow> error + result" where
  "result_truediv r n =
     (if n = 0 then Inl ZeroDivisionError
      else Inr (r\<lparr> duration := truediv (duration r) (real_of_int n),
                  pkg := map_option (map (\<lambda>x. truediv x (real_of_int n))) (pkg r),
                  dram := map_option (map (\<lambda>x. truediv x (real_of_int n))) (dram r) \<rparr>))"

section \<open>The print output\<close>

text \<open>
  The conversions of Python that the print output calls, as parameters: \<open>time.ctime\<close>,
  the format specifications \<open>.4e\<close>, \<open> .4e\<close> and \<open> e\<close> of a number, \<open>str\<close> of a number,
  and \<open>str\<close> of a record (the result type is declared outside the source files).
\<close>

record formats =
  ctime :: "real \<Rightarrow> string"
  fmt_4e :: "num \<Rightarrow> string"
  fmt_sp4e :: "num \<Rightarrow> string"
  fmt_spe :: "num \<Rightarrow> string"
  str_num :: "num \<Rightarrow> string"
  str_result :: "result \<Rightarrow> string"

text \<open>\<open>str(n)\<close> of a natural number: its decimal digits.\<close>

fun str_nat :: "nat \<Rightarrow> string" where
  "str_nat n =
     (if n < 10 then [''0123456789'' ! n]
      else str_nat (n div 10) @ [''0123456789'' ! (n mod 10)])"

declare str_nat.simps [simp del]

text \<open>The newline, the tabulator, the plus-minus sign (two bytes in UTF-8) and the rule.\<close>

definition nl :: string where
  "nl = [CHR 0x0A]"

definition tab :: string where
  "tab = [CHR 0x09]"

definition plus_minus :: string where
  "plus_minus = [CHR 0xC2, CHR 0xB1]"

definition rule_line :: string where
  "rule_line = replicate 31 (CHR ''-'')"

text \<open>
  \<open>print_energy\<close>: the loop over \<open>enumerate(energies)\<close>, with the index \<open>i\<close> and the
  string \<open>s\<close> built so far.
\<close>

fun print_energy_loop :: "formats \<Rightarrow> nat \<Rightarrow> (num \<times> num) list \<Rightarrow> string \<Rightarrow> string" where
  "print_energy_loop F i [] s = s"
| "print_energy_loop F i ((en, conf) # rest) s =
     print_energy_loop F (Suc i) rest
       (if isinstance_float en
        then s @ nl @ tab @ ''socket '' @ str_nat i @ '' : '' @
             fmt_spe F (truediv en 1000000) @ '' J ('' @ plus_minus @
             fmt_sp4e F (truediv conf 1000000) @ '')''
        else s @ nl @ tab @ ''socket '' @ str_nat i @ '' : '' @ str_num F en @ '' uJ'')"

definition print_energy :: "formats \<Rightarrow> (num \<times> num) list \<Rightarrow> string" where
  "print_energy F energies = print_energy_loop F 0 energies []"

text \<open>
  One domain's section of \<open>_format_output\<close>: nothing is appended when the series is
  \<open>None\<close>; otherwise \<open>zip(series, conf)\<close> raises TypeError on a \<open>None\<close> second argument.
\<close>

definition domain_section ::
  "formats \<Rightarrow> string \<Rightarrow> string \<Rightarrow> num list option \<Rightarrow> num list option \<Rightarrow> string \<Rightarrow> error + string"
where
  "domain_section F title closing series conf s =
     (case series of
        None \<Rightarrow> Inr s
      | Some xs \<Rightarrow>
          (case conf of
             None \<Rightarrow> Inl TypeError
           | Some cs \<Rightarrow>
               Inr (s @ nl @ rule_line @ nl @ title @ print_energy F (zip xs cs) @ closing)))"

text \<open>
  \<open>_format_output\<close>: the first f-string formats \<open>result.duration_conf\<close> with \<open> .4e\<close>,
  which raises TypeError on \<open>None\<close>.
\<close>

definition format_output :: "formats \<Rightarrow> bool \<Rightarrow> result \<Rightarrow> error + string" where
  "format_output F raw r =
     (if raw then Inr (str_result F r)
      else
        (case duration_conf r of
           None \<Rightarrow> Inl TypeError
         | Some dc \<Rightarrow>
             (case domain_section F ''PKG :'' [] (pkg r) (pkg_conf r)
                     (''Label : '' @ label r @ nl @
                      ''Begin : '' @ ctime F (timestamp r) @ nl @
                      ''Duration : '' @ fmt_4e F (duration r) @ '' s ('' @ plus_minus @
                      fmt_sp4e F dc @ '')'') of
                Inl e \<Rightarrow> Inl e
              | Inr s \<Rightarrow>
                  domain_section F ''DRAM :'' (nl @ rule_line) (dram r) (dram_conf r) s)))"

text \<open>
  \<open>add\<close> of an output, on a record or on \<open>None\<close>. The print output prints what
  \<open>_format_output\<close> returns; on \<open>None\<close> it prints \<open>str(None)\<close> when raw and fails on
  \<open>result.label\<close> otherwise. Another output takes its argument and does nothing that is
  seen here.
\<close>

definition add_output :: "formats \<Rightarrow> sink \<Rightarrow> result option \<Rightarrow> world \<Rightarrow> (error + unit) \<times> world" where
  "add_output F out arg w =
     (let w' = w\<lparr> added := added w @ [arg] \<rparr>
      in case out of
           OtherOutput \<Rightarrow> (Inr (), w')
         | PrintOutput raw \<Rightarrow>
             (case arg of
                None \<Rightarrow>
                  (if raw then (Inr (), w'\<lparr> printed := printed w' @ [''None''] \<rparr>)
                   else (Inl AttributeError, w'))
              | Some r \<Rightarrow>
                  (case format_output F raw r of
                     Inl e \<Rightarrow> (Inl e, w')
                   | Inr s \<Rightarrow> (Inr (), w'\<lparr> printed := printed w' @ [s] \<rparr>))))"

text \<open>\<open>export()\<close> with no argument: the session's own output receives \<open>self._results\<close>.\<close>

definition export_results :: "formats \<Rightarrow> measurement \<Rightarrow> world \<Rightarrow> (error + unit) \<times> world" where
  "export_results F m w =
     (case m_results m of
        Unset \<Rightarrow> (Inl AttributeError, w)
      | PyNone \<Rightarrow> add_output F (m_output m) None w
      | Bound r \<Rightarrow> add_output F (m_output m) (Some r) w)"

section \<open>The sample table and its statistics\<close>

text \<open>
  The part of a pandas DataFrame that the decorator uses: the column labels and the cells,
  row by row, \<open>None\<close> for a cell that holds NaN. \<open>pd.DataFrame(index=range(n),
  columns=cols)\<close> has \<open>n\<close> rows of NaN.
\<close>

record frame =
  columns :: "string list"
  cells :: "int option list list"

definition DataFrame :: "nat \<Rightarrow> string list \<Rightarrow> frame" where
  "DataFrame n cols = \<lparr> columns = cols, cells = replicate n (replicate (length cols) None) \<rparr>"

text \<open>\<open>df.iloc[i] = row\<close>: the row must exist and the tuple must have one value per column.\<close>

definition iloc_set :: "frame \<Rightarrow> nat \<Rightarrow> int list \<Rightarrow> error + frame" where
  "iloc_set df i row =
     (if length (cells df) \<le> i then Inl IndexError
      else if length row = length (columns df)
      then Inr (df\<lparr> cells := (cells df)[i := map Some row] \<rparr>)
      else Inl ValueError)"

text \<open>The column at a position, and \<open>df[name]\<close>, the column of a label.\<close>

definition column_at :: "frame \<Rightarrow> nat \<Rightarrow> int option list" where
  "column_at df j = map (\<lambda>row. row ! j) (cells df)"

fun position_of :: "string \<Rightarrow> string list \<Rightarrow> nat option" where
  "position_of name [] = None"
| "position_of name (c # cs) =
     (if c = name then Some 0 else map_option Suc (position_of name cs))"

definition getitem :: "frame \<Rightarrow> string \<Rightarrow> error + int option list" where
  "getitem df name =
     (case position_of name (columns df) of
        None \<Rightarrow> Inl KeyError
      | Some j \<Rightarrow> Inr (column_at df j))"

text \<open>
  The reductions of a column skip NaN: \<open>count\<close>, \<open>mean\<close> (NaN when nothing is left) and
  \<open>std\<close>, the sample standard deviation with the denominator \<open>n - 1\<close> (NaN for fewer than
  two values).
\<close>

fun dropna :: "int option list \<Rightarrow> int list" where
  "dropna [] = []"
| "dropna (None # vs) = dropna vs"
| "dropna (Some v # vs) = v # dropna vs"

definition series_count :: "int option list \<Rightarrow> nat" where
  "series_count vs = length (dropna vs)"

definition mean_of :: "int list \<Rightarrow> real" where
  "mean_of xs = real_of_int (sum_list xs) / real (length xs)"

definition series_mean :: "int option list \<Rightarrow> num" where
  "series_mean vs = (if dropna vs = [] then NaN else FloatV (mean_of (dropna vs)))"

definition series_std :: "int option list \<Rightarrow> num" where
  "series_std vs =
     (if length (dropna vs) < 2 then NaN
      else FloatV (sqrt (sum_list (map (\<lambda>x. (real_of_int x - mean_of (dropna vs))\<^sup>2) (dropna vs))
                         / real (length (dropna vs) - 1))))"

text \<open>
  \<open>_compute_array_mean\<close> and \<open>_compute_array_conf\<close>: one value for each column whose label
  starts with the prefix, in the order of the columns.
\<close>

definition compute_array_mean :: "frame \<Rightarrow> string \<Rightarrow> num list" where
  "compute_array_mean df column_prefix =
     map (\<lambda>j. series_mean (column_at df j))
       (filter (\<lambda>j. prefix column_prefix (columns df ! j)) [0..<length (columns df)])"

definition compute_array_conf :: "frame \<Rightarrow> real \<Rightarrow> string \<Rightarrow> num list" where
  "compute_array_conf df denom column_prefix =
     map (\<lambda>j. truediv (times_const 1.96 (series_std (column_at df j))) denom)
       (filter (\<lambda>j. prefix column_prefix (columns df ! j)) [0..<length (columns df)])"

text \<open>
  \<open>_compute_stats\<close>: \<open>denom\<close> is the square root of the count of the first column; the
  first component of the tuple is \<open>df["Duration"].std(axis=0)\<close>.
\<close>

definition compute_stats ::
  "frame \<Rightarrow> error + num \<times> num list \<times> num list \<times> num \<times> num list \<times> num list"
where
  "compute_stats df =
     (if columns df = [] then Inl IndexError
      else
        (let denom = sqrt (real (series_count (column_at df 0)))
         in case getitem df ''Duration'' of
              Inl e \<Rightarrow> Inl e
            | Inr dur \<Rightarrow>
                Inr (series_std dur,
                     compute_array_mean df ''Pkg'',
                     compute_array_mean df ''Dram'',
                     truediv (times_const 1.96 (series_std dur)) denom,
                     compute_array_conf df denom ''Pkg'',
                     compute_array_conf df denom ''Dram'')))"

section \<open>The decorator\<close>

text \<open>
  The measured function is outside the program: \<open>func k\<close> is what its \<open>k\<close>-th call
  returns. The loop of the global method calls it \<open>number\<close> times and keeps the last value
  in \<open>val\<close>, which stays unbound (\<open>None\<close>) when there is no call.
\<close>

fun call_loop :: "(nat \<Rightarrow> 'v) \<Rightarrow> nat \<Rightarrow> 'v option \<Rightarrow> world \<Rightarrow> 'v option \<times> world" where
  "call_loop func 0 val w = (val, w)"
| "call_loop func (Suc k) val w =
     call_loop func k (Some (func (calls w))) (w\<lparr> calls := Suc (calls w) \<rparr>)"

text \<open>
  The table of the confidence method, made in the first run: \<open>len(pkg)\<close> and \<open>len(dram)\<close>
  raise TypeError on \<open>None\<close>.
\<close>

definition new_frame :: "nat \<Rightarrow> int list option \<Rightarrow> int list option \<Rightarrow> error + frame" where
  "new_frame n pk dr =
     (case pk of
        None \<Rightarrow> Inl TypeError
      | Some ps \<Rightarrow>
          (case dr of
             None \<Rightarrow> Inl TypeError
           | Some ds \<Rightarrow>
               Inr (DataFrame n
                     ([''Duration'']
                      @ map (\<lambda>j. ''Pkg_'' @ str_nat j) [0..<length ps]
                      @ map (\<lambda>j. ''Dram_'' @ str_nat j) [0..<length ds]))))"

text \<open>The tuple \<open>dur, *pkg, *dram\<close>: unpacking \<open>None\<close> raises TypeError.\<close>

definition row_of :: "int \<Rightarrow> int list option \<Rightarrow> int list option \<Rightarrow> error + int list" where
  "row_of dur pk dr =
     (case pk of
        None \<Rightarrow> Inl TypeError
      | Some ps \<Rightarrow> (case dr of None \<Rightarrow> Inl TypeError | Some ds \<Rightarrow> Inr (dur # ps @ ds)))"

text \<open>
  One run of the loop of the confidence method, the run \<open>i\<close>: \<open>begin()\<close>, the call,
  \<open>end()\<close>, the table made when \<open>i == 0\<close> (\<open>df\<close> is \<open>None\<close> while the local
  variable is unbound), and the assignment of row \<open>i\<close>, whose right-hand side (the tuple)
  is evaluated before \<open>df\<close> is read. \<open>n\<close> is \<open>number\<close>.
\<close>

definition confidence_run ::
  "platform \<Rightarrow> (nat \<Rightarrow> 'v) \<Rightarrow> nat \<Rightarrow> nat \<Rightarrow> measurement \<Rightarrow> frame option \<Rightarrow> world
   \<Rightarrow> (error + measurement \<times> frame \<times> 'v) \<times> world"
where
  "confidence_run p func n i m df w =
     (case Measurement_begin p m w of
        (m1, w1) \<Rightarrow>
          (case Measurement_end p m1 (w1\<lparr> calls := Suc (calls w1) \<rparr>) of
             (Inl e, w3) \<Rightarrow> (Inl e, w3)
           | (Inr (dur, pk, dr), w3) \<Rightarrow>
               (case (if i = 0 then map_sum id Some (new_frame n pk dr) else Inr df) of
                  Inl e \<Rightarrow> (Inl e, w3)
                | Inr df1 \<Rightarrow>
                    (case row_of dur pk dr of
                       Inl e \<Rightarrow> (Inl e, w3)
                     | Inr row \<Rightarrow>
                         (case df1 of
                            None \<Rightarrow> (Inl UnboundLocalError, w3)
                          | Some d \<Rightarrow>
                              (case iloc_set d i row of
                                 Inl e \<Rightarrow> (Inl e, w3)
                               | Inr d' \<Rightarrow> (Inr (m1, d', func (calls w1)), w3)))))))"

text \<open>
  The loop \<open>for i in range(number)\<close>, at run \<open>i\<close> with \<open>k\<close> runs to go; \<open>df\<close> and
  \<open>val\<close> are the local variables (\<open>None\<close> while unbound).
\<close>

fun confidence_loop ::
  "platform \<Rightarrow> (nat \<Rightarrow> 'v) \<Rightarrow> nat \<Rightarrow> nat \<Rightarrow> nat \<Rightarrow> measurement \<Rightarrow> frame option \<Rightarrow> 'v option \<Rightarrow> world
   \<Rightarrow> (error + measurement \<times> frame option \<times> 'v option) \<times> world"
where
  "confidence_loop p func n i 0 m df val w = (Inr (m, df, val), w)"
| "confidence_loop p func n i (Suc k) m df val w =
     (case confidence_run p func n i m df w of
        (Inl e, w') \<Rightarrow> (Inl e, w')
      | (Inr (m1, d', v), w') \<Rightarrow> confidence_loop p func n (Suc i) k m1 (Some d') (Some v) w')"

text \<open>The end of \<open>wrapper_measure\<close>: \<open>sensor.export()\<close>, then \<open>return val\<close>.\<close>

definition export_and_return ::
  "formats \<Rightarrow> measurement \<Rightarrow> 'v option \<Rightarrow> world \<Rightarrow> (error + 'v) \<times> world"
where
  "export_and_return F m val w =
     (case export_results F m w of
        (Inl e, w') \<Rightarrow> (Inl e, w')
      | (Inr u, w') \<Rightarrow>
          (case val of None \<Rightarrow> (Inl UnboundLocalError, w') | Some v \<Rightarrow> (Inr v, w')))"

text \<open>
  The branch \<open>method == "global"\<close>: \<open>create_result(*sensor.end())\<close> passes three
  arguments, so the confidence arguments keep their default \<open>None\<close>; then
  \<open>sensor._results / number\<close>.
\<close>

definition measure_global ::
  "formats \<Rightarrow> platform \<Rightarrow> measurement \<Rightarrow> int \<Rightarrow> (nat \<Rightarrow> 'v) \<Rightarrow> world \<Rightarrow> (error + 'v) \<times> world"
where
  "measure_global F p sensor number func w =
     (case Measurement_begin p sensor w of
        (m1, w1) \<Rightarrow>
          (case call_loop func (nat number) None w1 of
             (val, w2) \<Rightarrow>
               (case Measurement_end p m1 w2 of
                  (Inl e, w3) \<Rightarrow> (Inl e, w3)
                | (Inr (dur, pk, dr), w3) \<Rightarrow>
                    (case create_result m1 (IntV dur) (map_option (map IntV) pk)
                            (map_option (map IntV) dr) None None None of
                       Inl e \<Rightarrow> (Inl e, w3)
                     | Inr m2 \<Rightarrow>
                         (case m_results m2 of
                            Unset \<Rightarrow> (Inl AttributeError, w3)
                          | PyNone \<Rightarrow> (Inl TypeError, w3)
                          | Bound r \<Rightarrow>
                              (case result_truediv r number of
                                 Inl e \<Rightarrow> (Inl e, w3)
                               | Inr r' \<Rightarrow>
                                   export_and_return F (m2\<lparr> m_results := Bound r' \<rparr>)
                                     val w3))))))"

text \<open>
  The branch \<open>method == "confidence"\<close>: the import of pandas inside the function, the
  loop, then \<open>create_result(*_compute_stats(df))\<close>.
\<close>

definition measure_confidence ::
  "formats \<Rightarrow> platform \<Rightarrow> bool \<Rightarrow> measurement \<Rightarrow> int \<Rightarrow> (nat \<Rightarrow> 'v) \<Rightarrow> world
   \<Rightarrow> (error + 'v) \<times> world"
where
  "measure_confidence F p pandas sensor number func w =
     (if pandas then
        (case confidence_loop p func (nat number) 0 (nat number) sensor None None w of
           (Inl e, w1) \<Rightarrow> (Inl e, w1)
         | (Inr (m1, df, val), w1) \<Rightarrow>
             (case df of
                None \<Rightarrow> (Inl UnboundLocalError, w1)
              | Some d \<Rightarrow>
                  (case compute_stats d of
                     Inl e \<Rightarrow> (Inl e, w1)
                   | Inr (dur, pk, dr, dur_conf, pk_conf, dr_conf) \<Rightarrow>
                       (case create_result m1 dur (Some pk) (Some dr) (Some dur_conf)
                               (Some pk_conf) (Some dr_conf) of
                          Inl e \<Rightarrow> (Inl e, w1)
                        | Inr m2 \<Rightarrow> export_and_return F m2 val w1))))
      else (Inl ImportError, w))"

text \<open>
  \<open>wrapper_measure\<close>, for the decorator's \<open>output\<close>, \<open>number\<close> and method and the
  function's name; \<open>pandas\<close> says whether the pandas library can be imported.
\<close>

definition wrapper_measure ::
  "formats \<Rightarrow> platform \<Rightarrow> bool \<Rightarrow> string \<Rightarrow> sink option \<Rightarrow> int \<Rightarrow> string \<Rightarrow> (nat \<Rightarrow> 'v) \<Rightarrow> world
   \<Rightarrow> (error + 'v) \<times> world"
where
  "wrapper_measure F p pandas name out number meth func w =
     (if meth = ''global''
      then measure_global F p (Measurement_init name out) number func w
      else if meth = ''confidence''
      then measure_confidence F p pandas (Measurement_init name out) number func w
      else (Inl ValueError, w))"

text \<open>
  The module \<open>measurement\<close> itself: its top-level statements run before anything of it can
  be used, and \<open>import pandas as pd\<close> is one of them. A decorated function is called only
  after the module has been imported.
\<close>

definition import_module :: "bool \<Rightarrow> error + unit" where
  "import_module pandas = (if pandas then Inr () else Inl ImportError)"

definition measureit ::
  "formats \<Rightarrow> platform \<Rightarrow> bool \<Rightarrow> string \<Rightarrow> sink option \<Rightarrow> int \<Rightarrow> string \<Rightarrow> (nat \<Rightarrow> 'v) \<Rightarrow> world
   \<Rightarrow> (error + 'v) \<times> world"
where
  "measureit F p pandas name out number meth func w =
     (case import_module pandas of
        Inl e \<Rightarrow> (Inl e, w)
      | Inr u \<Rightarrow> wrapper_measure F p pandas name out number meth func w)"

section \<open>A constant sample\<close>

text \<open>
  A platform on which every run is the same: the clock advances by 5 nanoseconds and the
  two counters of the one socket by 3 and 4 microjoules between any two readings. The world
  before anything has happened.
\<close>

definition constant_sample :: platform where
  "constant_sample = \<lparr> energy = (\<lambda>k. [3 * int k, 4 * int k]), time_ns = (\<lambda>k. 5 * int k) \<rparr>"

text \<open>Conversions for the examples: every number and time prints as a fixed text.\<close>

definition sample_formats :: formats where
  "sample_formats =
     \<lparr> ctime = (\<lambda>t. ''<time>''), fmt_4e = (\<lambda>x. ''<.4e>''), fmt_sp4e = (\<lambda>x. ''< .4e>''),
       fmt_spe = (\<lambda>x. ''< e>''), str_num = (\<lambda>x. ''<num>''), str_result = (\<lambda>r. ''<result>'') \<rparr>"

definition fresh_world :: world where
  "fresh_world = \<lparr> sensor_reads = 0, clock_reads = 0, calls = 0, added = [], printed = [] \<rparr>"

section \<open>Properties of the session\<close>

lemma empty_energy_result_foldl:
  "foldl (\<lambda>acc x. acc \<or> 0 \<le> x) a s = (a \<or> (\<exists>x\<in>set s. (0::int) \<le> x))"
  by (induction s arbitrary: a) auto

lemma empty_energy_result_iff: "empty_energy_result s = (\<exists>x\<in>set s. 0 \<le> x)"
  by (simp add: empty_energy_result_def empty_energy_result_foldl)

lemma every_other_length: "length (every_other xs) = (length xs + 1) div 2"
  by (induction xs rule: every_other.induct) simp_all

lemma every_other_nth:
  "i < (length xs + 1) div 2 \<Longrightarrow> every_other xs ! i = xs ! (2 * i)"
proof (induction xs arbitrary: i rule: every_other.induct)
  case 1
  then show ?case by simp
next
  case (2 x)
  then show ?case by simp
next
  case (3 x y zs)
  show ?case
  proof (cases i)
    case 0
    then show ?thesis by simp
  next
    case (Suc j)
    with 3 show ?thesis by simp
  qed
qed

lemma every_other_map:
  "every_other xs = map (\<lambda>i. xs ! (2 * i)) [0..<(length xs + 1) div 2]"
  by (rule nth_equalityI) (simp_all add: every_other_length every_other_nth)

lemma every_other_drop_map:
  "every_other (drop 1 xs) = map (\<lambda>i. xs ! (2 * i + 1)) [0..<length xs div 2]"
proof (rule nth_equalityI)
  show "length (every_other (drop 1 xs)) = length (map (\<lambda>i. xs ! (2 * i + 1)) [0..<length xs div 2])"
    by (cases xs) (simp_all add: every_other_length)
next
  fix i
  assume "i < length (every_other (drop 1 xs))"
  then have i: "i < (length (drop 1 xs) + 1) div 2"
    by (simp add: every_other_length)
  then have "every_other (drop 1 xs) ! i = drop 1 xs ! (2 * i)"
    by (rule every_other_nth)
  moreover have "2 * i + 1 < length xs"
    using i by (cases xs) auto
  ultimately show "every_other (drop 1 xs) ! i = map (\<lambda>i. xs ! (2 * i + 1)) [0..<length xs div 2] ! i"
    using i by (cases xs) (auto simp: every_other_length)
qed

text \<open>
  Claim C3. A domain series is replaced by an absent value exactly when every element of it
  is negative; a series with at least one non-negative element is returned unchanged,
  whatever its other elements are.
\<close>

theorem sentinel_rule:
  "(series_or_none s = None \<longleftrightarrow> (\<forall>x\<in>set s. x < 0)) \<and>
   ((\<exists>x\<in>set s. 0 \<le> x) \<longrightarrow> series_or_none s = Some s)"
proof -
  have "(\<exists>x\<in>set s. 0 \<le> x) = (\<not> (\<forall>x\<in>set s. x < 0))"
    by (auto simp: not_less)
  then show ?thesis
    by (simp add: series_or_none_def empty_energy_result_iff)
qed

theorem sentinel_rule_witness:
  "series_or_none [-1, 5] = Some [-1, 5] \<and> series_or_none [-1, -1] = None \<and>
   series_or_none [] = None"
  using sentinel_rule [of "[-1, 5]"] sentinel_rule [of "[-1, -1]"] sentinel_rule [of "[]"]
  by simp

text \<open>
  Claim C4. For two snapshots of the same length, \<open>end()\<close> returns the difference of the
  two clock readings, the package series and the DRAM series. The package series is made of
  the even-indexed entries of the elementwise difference, end minus begin, and the DRAM
  series of its odd-indexed entries; each of the two, independently of the other, is absent
  when all its elements are negative and is returned as it is otherwise.
\<close>

theorem end_returns_duration_and_series:
  assumes "m_energy_begin m = Some snap_begin"
    and "m_ts_begin m = Some ts_begin"
    and "energy p (sensor_reads w) = snap_end"
    and "length snap_end = length snap_begin"
  shows "fst (Measurement_end p m w) =
           Inr (time_ns p (clock_reads w) - ts_begin,
                (if \<forall>x\<in>set (map (\<lambda>i. snap_end ! (2 * i) - snap_begin ! (2 * i))
                                [0..<(length snap_begin + 1) div 2]). x < 0
                 then None
                 else Some (map (\<lambda>i. snap_end ! (2 * i) - snap_begin ! (2 * i))
                              [0..<(length snap_begin + 1) div 2])),
                (if \<forall>x\<in>set (map (\<lambda>i. snap_end ! (2 * i + 1) - snap_begin ! (2 * i + 1))
                                [0..<length snap_begin div 2]). x < 0
                 then None
                 else Some (map (\<lambda>i. snap_end ! (2 * i + 1) - snap_begin ! (2 * i + 1))
                              [0..<length snap_begin div 2])))"
proof -
  let ?delta = "map2 (-) snap_end snap_begin"
  let ?pk = "map (\<lambda>i. snap_end ! (2 * i) - snap_begin ! (2 * i)) [0..<(length snap_begin + 1) div 2]"
  let ?dr = "map (\<lambda>i. snap_end ! (2 * i + 1) - snap_begin ! (2 * i + 1)) [0..<length snap_begin div 2]"
  have len: "length ?delta = length snap_begin"
    using assms(4) by simp
  have pk: "every_other ?delta = ?pk"
    unfolding every_other_map len using assms(4) by (intro map_cong refl) auto
  have dr: "every_other (drop 1 ?delta) = ?dr"
    unfolding every_other_drop_map len using assms(4) by (intro map_cong refl) auto
  have rule: "series_or_none s = (if \<forall>x\<in>set s. x < 0 then None else Some s)" for s
  proof -
    have "(\<exists>x\<in>set s. 0 \<le> x) = (\<not> (\<forall>x\<in>set s. x < 0))"
      by (auto simp: not_less)
    then show ?thesis
      by (simp add: series_or_none_def empty_energy_result_iff)
  qed
  have "fst (Measurement_end p m w) =
      Inr (time_ns p (clock_reads w) - ts_begin,
           series_or_none (every_other ?delta),
           series_or_none (every_other (drop 1 ?delta)))"
    using assms by (simp add: Measurement_end_def array_sub_def)
  then have "fst (Measurement_end p m w) =
      Inr (time_ns p (clock_reads w) - ts_begin, series_or_none ?pk, series_or_none ?dr)"
    by (simp only: pk dr)
  then show ?thesis
    by (simp only: rule)
qed

theorem end_returns_duration_and_series_witness:
  "fst (Measurement_end \<lparr> energy = (\<lambda>k. [7, -1, 9, -4]), time_ns = (\<lambda>k. 130) \<rparr>
          \<lparr> m_label = ''f'', m_output = OtherOutput, m_energy_begin = Some [2, 0, 10, 1],
            m_ts_begin = Some 100, m_results = Unset \<rparr>
          \<lparr> sensor_reads = 1, clock_reads = 1, calls = 0, added = [], printed = [] \<rparr>)
   = Inr (30, Some [5, -1], None) \<and>
   fst (Measurement_end \<lparr> energy = (\<lambda>k. [1, 4, 3, 4]), time_ns = (\<lambda>k. 130) \<rparr>
          \<lparr> m_label = ''f'', m_output = OtherOutput, m_energy_begin = Some [2, 0, 10, 1],
            m_ts_begin = Some 100, m_results = Unset \<rparr>
          \<lparr> sensor_reads = 1, clock_reads = 1, calls = 0, added = [], printed = [] \<rparr>)
   = Inr (30, None, Some [4, 3])"
proof -
  have u: "[0..<(length [2, 0, 10, 1::int] + 1) div 2] = [0, 1]"
          "[0..<length [2, 0, 10, 1::int] div 2] = [0, 1]"
    by (simp_all add: upt_rec)
  show ?thesis
    using end_returns_duration_and_series
      [of "\<lparr> m_label = ''f'', m_output = OtherOutput, m_energy_begin = Some [2, 0, 10, 1],
              m_ts_begin = Some 100, m_results = Unset \<rparr>"
          "[2, 0, 10, 1]" 100
          "\<lparr> energy = (\<lambda>k. [7, -1, 9, -4]), time_ns = (\<lambda>k. 130) \<rparr>"
          "\<lparr> sensor_reads = 1, clock_reads = 1, calls = 0, added = [], printed = [] \<rparr>"
          "[7, -1, 9, -4]"]
      end_returns_duration_and_series
      [of "\<lparr> m_label = ''f'', m_output = OtherOutput, m_energy_begin = Some [2, 0, 10, 1],
              m_ts_begin = Some 100, m_results = Unset \<rparr>"
          "[2, 0, 10, 1]" 100
          "\<lparr> energy = (\<lambda>k. [1, 4, 3, 4]), time_ns = (\<lambda>k. 130) \<rparr>"
          "\<lparr> sensor_reads = 1, clock_reads = 1, calls = 0, added = [], printed = [] \<rparr>"
          "[1, 4, 3, 4]"]
    by (simp add: u)
qed

text \<open>
  Claim C8. Reading the result of a freshly constructed session raises an error instead of
  returning a default or an absent value; once \<open>create_result\<close> has stored a record, the
  same access returns that record.
\<close>

theorem result_access:
  "Measurement_result (Measurement_init lbl out) = Inl AttributeError \<and>
   (create_result m dur pk dr dur_conf pk_conf dr_conf = Inr m' \<longrightarrow>
      (\<exists>ts dc. m_ts_begin m = Some ts \<and> dur_conf = Some dc \<and>
         Measurement_result m' =
           Inr \<lparr> label = m_label m, timestamp = real_of_int ts / 1000000000,
                 duration = truediv dur 1000000000, pkg = pk, dram = dr,
                 duration_conf = Some (truediv dc 1000000000),
                 pkg_conf = pk_conf, dram_conf = dr_conf \<rparr>))"
  by (auto simp: Measurement_result_def Measurement_init_def create_result_def
      split: option.splits)

theorem result_access_witness:
  "Measurement_result (Measurement_init ''f'' None) = Inl AttributeError \<and>
   Measurement_result
     (\<lparr> m_label = ''f'', m_output = OtherOutput, m_energy_begin = Some [0, 0],
        m_ts_begin = Some 3000000000,
        m_results = Bound \<lparr> label = ''f'', timestamp = 3, duration = FloatV 2,
          pkg = Some [IntV 5], dram = None, duration_conf = Some (FloatV 1),
          pkg_conf = None, dram_conf = None \<rparr> \<rparr>)
   = Inr \<lparr> label = ''f'', timestamp = 3, duration = FloatV 2,
          pkg = Some [IntV 5], dram = None, duration_conf = Some (FloatV 1),
          pkg_conf = None, dram_conf = None \<rparr>"
  using result_access
    [of "''f''" None
        "\<lparr> m_label = ''f'', m_output = OtherOutput, m_energy_begin = Some [0, 0],
           m_ts_begin = Some 3000000000, m_results = Unset \<rparr>"
        "IntV 2000000000" "Some [IntV 5]" None "Some (IntV 1000000000)" None None
        "\<lparr> m_label = ''f'', m_output = OtherOutput, m_energy_begin = Some [0, 0],
           m_ts_begin = Some 3000000000,
           m_results = Bound \<lparr> label = ''f'', timestamp = 3, duration = FloatV 2,
             pkg = Some [IntV 5], dram = None, duration_conf = Some (FloatV 1),
             pkg_conf = None, dram_conf = None \<rparr> \<rparr>"]
  by (simp add: create_result_def)

section \<open>Properties of the decorator and of the print output\<close>

text \<open>The definitions that a run on a concrete input unfolds.\<close>

lemmas eval_defs =
  wrapper_measure_def measure_confidence_def measure_global_def numeral_2_eq_2
  Measurement_init_def Measurement_begin_def Measurement_end_def
  array_sub_def series_or_none_def empty_energy_result_def new_frame_def row_of_def
  iloc_set_def DataFrame_def confidence_run_def
  str_nat.simps upt_rec compute_stats_def getitem_def column_at_def series_count_def
  series_std_def series_mean_def mean_of_def
  compute_array_mean_def compute_array_conf_def create_result_def export_and_return_def
  export_results_def add_output_def

lemma compute_stats_duration:
  "compute_stats df = Inr (a, b, c, d, e, f) \<Longrightarrow>
   (\<exists>dur. getitem df ''Duration'' = Inr dur \<and> a = series_std dur)"
  by (auto simp: compute_stats_def Let_def split: if_splits sum.splits)

text \<open>
  Claim C1, evaluated on the code. Under the confidence method with two runs on the constant
  sample (every run lasts 5 nanoseconds and uses 3 and 4 microjoules), the record handed to
  the output has the means 3 and 4 of the package and DRAM columns and confidence 0
  everywhere, but its duration is 0: the first component that \<open>_compute_stats\<close> returns is
  the standard deviation of the Duration column, whose mean is 5.
\<close>

theorem confidence_duration_is_std:
  "wrapper_measure F constant_sample True ''f'' (Some OtherOutput) 2 ''confidence'' func fresh_world =
     (Inr (func 1),
      \<lparr> sensor_reads = 4, clock_reads = 4, calls = 2,
        added = [Some \<lparr> label = ''f'', timestamp = 10 / 1000000000, duration = FloatV 0,
                         pkg = Some [FloatV 3], dram = Some [FloatV 4],
                         duration_conf = Some (FloatV 0), pkg_conf = Some [FloatV 0],
                         dram_conf = Some [FloatV 0] \<rparr>],
        printed = [] \<rparr>) \<and>
   series_mean [Some 5, Some 5] = FloatV 5"
  by (simp add: constant_sample_def fresh_world_def eval_defs)

text \<open>The loop of calls reads neither sensor nor clock and hands nothing to an output.\<close>

lemma call_loop_world:
  "sensor_reads (snd (call_loop func k val w)) = sensor_reads w \<and>
   clock_reads (snd (call_loop func k val w)) = clock_reads w \<and>
   added (snd (call_loop func k val w)) = added w"
  by (induction k arbitrary: val w) simp_all

text \<open>
  Claim C2, evaluated on the code. Under the global method no record is ever made: the call
  \<open>create_result(*sensor.end())\<close> leaves \<open>duration_conf\<close> at its default \<open>None\<close> and
  \<open>create_result\<close> divides it by 1000000000, so the wrapper raises TypeError (ValueError
  when the two readings differ in length) and the output receives nothing, for every
  platform, output, number of runs and function.
\<close>

theorem global_policy_raises:
  "fst (wrapper_measure F p pandas name out number ''global'' func w) =
     Inl (if length (energy p (Suc (sensor_reads w))) = length (energy p (sensor_reads w))
          then TypeError else ValueError) \<and>
   added (snd (wrapper_measure F p pandas name out number ''global'' func w)) = added w"
proof -
  obtain val w2 where cl: "call_loop func (nat number) None
      (w\<lparr> sensor_reads := Suc (sensor_reads w), clock_reads := Suc (clock_reads w) \<rparr>) = (val, w2)"
    by (cases "call_loop func (nat number) None
      (w\<lparr> sensor_reads := Suc (sensor_reads w), clock_reads := Suc (clock_reads w) \<rparr>)")
  have w2: "sensor_reads w2 = Suc (sensor_reads w)" "added w2 = added w"
    using call_loop_world [of func "nat number" None
      "w\<lparr> sensor_reads := Suc (sensor_reads w), clock_reads := Suc (clock_reads w) \<rparr>"] cl
    by simp_all
  show ?thesis
    by (simp add: wrapper_measure_def measure_global_def Measurement_init_def
        Measurement_begin_def cl Measurement_end_def array_sub_def create_result_def w2)
qed

lemma truediv_real: "real_of (truediv x d) = map_option (\<lambda>v. v / d) (real_of x)"
  by (cases x) simp_all

lemma truediv_series:
  "rel_option (list_all2 (\<lambda>x y. real_of y = map_option (\<lambda>v. v / d) (real_of x)))
     s (map_option (map (\<lambda>x. truediv x d)) s)"
  by (cases s) (simp_all add: list_all2_conv_all_nth truediv_real)

text \<open>
  Claim C5. For a positive \<open>n\<close>, \<open>record / n\<close> is a record with the same label and
  timestamp, whose duration is the original one divided by \<open>n\<close> as a real number, whose
  package and DRAM series are absent where the original ones are and otherwise have the
  same length and, element by element, the original value divided by \<open>n\<close>, and whose
  three confidence fields are unchanged.
\<close>

theorem scaling:
  "0 < n \<Longrightarrow>
   (\<exists>r'. result_truediv r n = Inr r' \<and>
      label r' = label r \<and> timestamp r' = timestamp r \<and>
      real_of (duration r') = map_option (\<lambda>v. v / real_of_int n) (real_of (duration r)) \<and>
      rel_option (list_all2 (\<lambda>x y. real_of y = map_option (\<lambda>v. v / real_of_int n) (real_of x)))
        (pkg r) (pkg r') \<and>
      rel_option (list_all2 (\<lambda>x y. real_of y = map_option (\<lambda>v. v / real_of_int n) (real_of x)))
        (dram r) (dram r') \<and>
      duration_conf r' = duration_conf r \<and> pkg_conf r' = pkg_conf r \<and>
      dram_conf r' = dram_conf r)"
  by (simp add: result_truediv_def truediv_real truediv_series)

theorem scaling_witness:
  "result_truediv
     \<lparr> label = ''f'', timestamp = 7, duration = FloatV 3, pkg = Some [IntV 10, FloatV 5],
       dram = None, duration_conf = Some (FloatV 1), pkg_conf = Some [FloatV 2, FloatV 2],
       dram_conf = None \<rparr> 2
   = Inr \<lparr> label = ''f'', timestamp = 7, duration = FloatV (3 / 2),
          pkg = Some [FloatV 5, FloatV (5 / 2)],
          dram = None, duration_conf = Some (FloatV 1), pkg_conf = Some [FloatV 2, FloatV 2],
          dram_conf = None \<rparr>"
  using scaling [of 2 "\<lparr> label = ''f'', timestamp = 7, duration = FloatV 3, pkg = Some [IntV 10, FloatV 5],
       dram = None, duration_conf = Some (FloatV 1), pkg_conf = Some [FloatV 2, FloatV 2],
       dram_conf = None \<rparr>"]
  by (auto simp: result_truediv_def)

text \<open>
  With the duration's confidence present, a record without package and DRAM series is
  rendered as the three leading lines alone: an absent domain has no section.
\<close>

lemma format_output_omits_absent_domains:
  "format_output F False
     \<lparr> label = l, timestamp = t, duration = d, pkg = None, dram = None,
       duration_conf = Some c, pkg_conf = pc, dram_conf = drc \<rparr>
   = Inr (''Label : '' @ l @ nl @ ''Begin : '' @ ctime F t @ nl @
          ''Duration : '' @ fmt_4e F d @ '' s ('' @ plus_minus @ fmt_sp4e F c @ '')'')"
  by (simp add: format_output_def domain_section_def)

text \<open>
  Claim C6, evaluated on the code. The print output (not raw) raises TypeError on every
  record whose \<open>duration_conf\<close> is absent, and on every record with a package series whose
  \<open>pkg_conf\<close> is absent, whatever the other fields are.
\<close>

theorem print_output_rejects_absent_confidence:
  "fst (add_output F (PrintOutput False)
          (Some \<lparr> label = l, timestamp = t, duration = d, pkg = pk, dram = dr,
                  duration_conf = None, pkg_conf = pc, dram_conf = drc \<rparr>) w) = Inl TypeError \<and>
   fst (add_output F (PrintOutput False)
          (Some \<lparr> label = l, timestamp = t, duration = d, pkg = Some xs, dram = dr,
                  duration_conf = Some c, pkg_conf = None, dram_conf = drc \<rparr>) w) = Inl TypeError"
  by (simp add: add_output_def format_output_def domain_section_def)

text \<open>
  Claim C7. For a method that is neither \<open>global\<close> nor \<open>confidence\<close> the wrapper raises
  ValueError and leaves the world as it was: no read of the sensor or the clock, no call, no
  record, nothing handed to the output.
\<close>

theorem unknown_policy:
  "meth \<noteq> ''global'' \<Longrightarrow> meth \<noteq> ''confidence'' \<Longrightarrow>
   wrapper_measure F p pandas name out number meth func w = (Inl ValueError, w)"
  by (simp add: wrapper_measure_def)

theorem unknown_policy_witness:
  "wrapper_measure sample_formats constant_sample True ''f'' None 3 ''bogus'' (\<lambda>k. k) fresh_world
     = (Inl ValueError, fresh_world)"
  using unknown_policy [of "''bogus''" sample_formats constant_sample True "''f''" None 3 "\<lambda>k. k" fresh_world]
  by simp

text \<open>
  Claim C9, evaluated on the code. Where pandas cannot be imported, a use of the decorator
  with the global method fails with ImportError before anything is measured: the module
  imports pandas at its top level.
\<close>

theorem global_needs_pandas:
  "measureit F p False name out number ''global'' func w = (Inl ImportError, w)"
  by (simp add: measureit_def import_module_def)


text \<open>What one run and the loop of the confidence method do to the world.\<close>

lemma Measurement_end_snd:
  "snd (Measurement_end p m w) =
     w\<lparr> sensor_reads := Suc (sensor_reads w), clock_reads := Suc (clock_reads w) \<rparr>"
  by (simp add: Measurement_end_def Let_def split: option.splits sum.splits)

lemma confidence_run_snd:
  "snd (confidence_run p func n i m df w) =
     snd (Measurement_end p (fst (Measurement_begin p m w))
            ((snd (Measurement_begin p m w))\<lparr> calls := Suc (calls (snd (Measurement_begin p m w))) \<rparr>))"
  by (simp add: confidence_run_def split: prod.splits sum.splits option.splits)

lemma confidence_run_world:
  "added (snd (confidence_run p func n i m df w)) = added w \<and>
   sensor_reads (snd (confidence_run p func n i m df w)) = sensor_reads w + 2"
  by (simp add: confidence_run_snd Measurement_end_snd Measurement_begin_def)

lemma Measurement_end_fst:
  assumes "m_energy_begin m = Some b" and "m_ts_begin m = Some t"
    and "array_sub (energy p (sensor_reads w)) b = Inr delta"
  shows "fst (Measurement_end p m w) =
     Inr (time_ns p (clock_reads w) - t, series_or_none (every_other delta),
          series_or_none (every_other (drop 1 delta)))"
  using assms by (simp add: Measurement_end_def)

lemma confidence_run_absent:
  assumes "array_sub (energy p (sensor_reads w + 1)) (energy p (sensor_reads w)) = Inr delta"
    and "series_or_none (every_other delta) = None \<or>
         series_or_none (every_other (drop 1 delta)) = None"
  shows "\<exists>e. fst (confidence_run p func n i m df w) = Inl e"
proof -
  let ?m1 = "fst (Measurement_begin p m w)"
  let ?w1 = "(snd (Measurement_begin p m w))\<lparr> calls := Suc (calls (snd (Measurement_begin p m w))) \<rparr>"
  have "fst (Measurement_end p ?m1 ?w1) =
     Inr (time_ns p (clock_reads ?w1) - time_ns p (clock_reads w),
          series_or_none (every_other delta), series_or_none (every_other (drop 1 delta)))"
    using assms(1) by (intro Measurement_end_fst) (simp_all add: Measurement_begin_def)
  then obtain w3 where e: "Measurement_end p ?m1 ?w1 =
     (Inr (time_ns p (clock_reads ?w1) - time_ns p (clock_reads w),
          series_or_none (every_other delta), series_or_none (every_other (drop 1 delta))), w3)"
    by (cases "Measurement_end p ?m1 ?w1") simp
  have b: "Measurement_begin p m w = (?m1, snd (Measurement_begin p m w))"
    by simp
  show ?thesis
    using assms(2)
    by (subst confidence_run_def, subst b, simp only: prod.case e)
       (auto simp: new_frame_def row_of_def split: option.splits sum.splits)
qed

lemma confidence_loop_added:
  "added (snd (confidence_loop p func n i k m df val w)) = added w"
proof (induction k arbitrary: i m df val w)
  case 0
  then show ?case by simp
next
  case (Suc k)
  show ?case
  proof (cases "confidence_run p func n i m df w")
    case (Pair r w')
    then have w': "added w' = added w"
      using confidence_run_world [of p func n i m df w] by simp
    show ?thesis
    proof (cases r)
      case (Inl e)
      with Pair w' show ?thesis by simp
    next
      case (Inr t)
      obtain m1 d' v where t: "t = (m1, d', v)"
        by (cases t)
      show ?thesis
        using Pair Inr t w' Suc.IH [of "Suc i" m1 "Some d'" "Some v" w'] by simp
    qed
  qed
qed

lemma confidence_loop_absent:
  assumes "j < k"
    and "array_sub (energy p (sensor_reads w + 2 * j + 1)) (energy p (sensor_reads w + 2 * j))
           = Inr delta"
    and "series_or_none (every_other delta) = None \<or>
         series_or_none (every_other (drop 1 delta)) = None"
  shows "\<exists>e. fst (confidence_loop p func n i k m df val w) = Inl e"
  using assms
proof (induction k arbitrary: i j m df val w)
  case 0
  then show ?case by simp
next
  case (Suc k)
  show ?case
  proof (cases "confidence_run p func n i m df w")
    case (Pair r w')
    then have w': "sensor_reads w' = sensor_reads w + 2"
      using confidence_run_world [of p func n i m df w] by simp
    show ?thesis
    proof (cases r)
      case (Inl e)
      with Pair show ?thesis by simp
    next
      case (Inr t)
      obtain m1 d' v where t: "t = (m1, d', v)"
        by (cases t)
      have "j \<noteq> 0"
      proof
        assume "j = 0"
        with Suc.prems have "\<exists>e. fst (confidence_run p func n i m df w) = Inl e"
          using confidence_run_absent [of p w delta func n i m df] by simp
        with Pair Inr show False by simp
      qed
      then obtain j' where j: "j = Suc j'"
        by (cases j) auto
      have "\<exists>e. fst (confidence_loop p func n (Suc i) k m1 (Some d') (Some v) w') = Inl e"
        using Suc.IH [of j' w' "Suc i" m1 "Some d'" "Some v"] Suc.prems j w'
        by (simp add: add.commute add.left_commute)
      with Pair Inr t show ?thesis by simp
    qed
  qed
qed

text \<open>
  Claim C10. Under the confidence method, if in some run \<open>j\<close> every element of the package
  series or every element of the DRAM series of the delta is negative, the wrapper raises
  an error and hands nothing to the output: the method succeeds only when both series are
  present in every run.
\<close>

theorem confidence_needs_both_domains:
  assumes "j < nat number"
    and "array_sub (energy p (sensor_reads w + 2 * j + 1)) (energy p (sensor_reads w + 2 * j))
           = Inr delta"
    and "(\<forall>x\<in>set (every_other delta). x < 0) \<or> (\<forall>x\<in>set (every_other (drop 1 delta)). x < 0)"
  shows "(\<exists>e. fst (wrapper_measure F p pandas name out number ''confidence'' func w) = Inl e) \<and>
         added (snd (wrapper_measure F p pandas name out number ''confidence'' func w)) = added w"
proof -
  let ?m = "Measurement_init name out"
  let ?loop = "confidence_loop p func (nat number) 0 (nat number) ?m None None w"
  have none: "series_or_none (every_other delta) = None \<or>
              series_or_none (every_other (drop 1 delta)) = None"
    using assms(3) by (auto simp: series_or_none_def empty_energy_result_iff not_le)
  obtain e where e: "fst ?loop = Inl e"
    using confidence_loop_absent [OF assms(1) assms(2) none] by blast
  have a: "added (snd ?loop) = added w"
    by (rule confidence_loop_added)
  obtain r w1 where l: "?loop = (r, w1)"
    by (cases ?loop)
  with e a have "r = Inl e" "added w1 = added w"
    by simp_all
  with l show ?thesis
    by (simp add: wrapper_measure_def measure_confidence_def)
qed

theorem confidence_needs_both_domains_witness:
  "fst (wrapper_measure sample_formats
          \<lparr> energy = (\<lambda>k. if k = 3 then [7, 0] else [3 * int k, 4 * int k]),
            time_ns = (\<lambda>k. 5 * int k) \<rparr>
          True ''f'' (Some OtherOutput) 2 ''confidence'' (\<lambda>k. k) fresh_world) = Inl TypeError"
  using confidence_needs_both_domains
    [of 1 2 "\<lparr> energy = (\<lambda>k. if k = 3 then [7, 0] else [3 * int k, 4 * int k]),
              time_ns = (\<lambda>k. 5 * int k) \<rparr>" fresh_world "[1, -8]"
        sample_formats True "''f''" "Some OtherOutput" "\<lambda>k. k"]
  by (simp add: fresh_world_def eval_defs)

end
